theory Spec2Isabelle
  imports Complex_Main
begin


section \<open>Subtitle timing: the overlap resolver\<close>

text \<open>
  The subtitle engine of \<^verbatim>\<open>utils/video_creator.py\<close> works on Python dictionaries with
  fixed keys. A text segment (the key set \<^verbatim>\<open>text\<close>, \<^verbatim>\<open>start\<close>, \<^verbatim>\<open>end\<close>) and a fixed segment
  (\<^verbatim>\<open>text\<close>, \<^verbatim>\<open>start\<close>, \<^verbatim>\<open>duration\<close>) share their first two keys, so both are extensions of
  one record. Times are Python floats; they are modelled as real numbers, that is, the
  arithmetic of the source is read exactly and rounding is left out.
\<close>

record cue =
  "text" :: string
  start :: real

record segment = cue +
  end_time :: real

record fixed_segment = cue +
  duration :: real

text \<open>The timing controls set in \<^verbatim>\<open>VideoCreator.__init__\<close>.\<close>

definition min_gap_between_text :: real where
  "min_gap_between_text = 0.1"

definition min_display_time :: real where
  "min_display_time = 1.0"

definition max_display_time :: real where
  "max_display_time = 3.0"

text \<open>
  The body of the \<^verbatim>\<open>for i, segment in enumerate(segments)\<close> loop of
  \<^verbatim>\<open>_fix_timing_overlaps\<close>: it reads the whole list (for \<^verbatim>\<open>segments[i + 1]\<close>), the index and
  the current segment, and builds the dictionary that is appended to \<^verbatim>\<open>fixed_segments\<close>.
  The read \<^verbatim>\<open>segments[i + 1]\<close> is guarded by \<^verbatim>\<open>i < len(segments) - 1\<close>, so it is in range.
\<close>

definition fix_segment :: "segment list \<Rightarrow> nat \<times> segment \<Rightarrow> fixed_segment" where
  "fix_segment segments p =
     (case p of (i, seg) \<Rightarrow>
        let start_time = start seg;
            original_end = end_time seg;
            ideal_duration = max min_display_time
                                 (min max_display_time (original_end - start_time));
            ideal_duration =
              (if i < length segments - 1 then
                 let next_start = start (segments ! (i + 1));
                     max_end_time = next_start - min_gap_between_text
                 in if start_time + ideal_duration > max_end_time
                    then max 0.5 (max_end_time - start_time)
                    else ideal_duration
               else ideal_duration);
            final_duration = max min_display_time ideal_duration
        in \<lparr>text = text seg, start = start_time, duration = final_duration\<rparr>)"

definition fix_timing_overlaps :: "segment list \<Rightarrow> fixed_segment list" where
  "fix_timing_overlaps segments =
     (if segments = [] then []
      else map (fix_segment segments) (enumerate 0 segments))"

subsection \<open>The algorithm of the specification\<close>

text \<open>
  The per-cue algorithm as section 4.2 of the specification words it: clamp the raw
  length of the cue between the minimum and the maximum display time; when a next cue
  exists and the cue would run past the next start less the gap, shrink it to that
  point, but not below half a second; emit the larger of the minimum display time and
  the result. It recurses on the list and looks at the successor by pattern
  matching, where the source indexes into the list.
\<close>

definition clamp :: "real \<Rightarrow> real \<Rightarrow> real \<Rightarrow> real" where
  "clamp x lo hi = max lo (min hi x)"

definition spec_emit :: "segment \<Rightarrow> real \<Rightarrow> fixed_segment" where
  "spec_emit c ideal_duration =
     \<lparr>text = text c, start = start c, duration = max 1.0 ideal_duration\<rparr>"

fun spec_overlap_resolver :: "segment list \<Rightarrow> fixed_segment list" where
  "spec_overlap_resolver [] = []"
| "spec_overlap_resolver [c] = [spec_emit c (clamp (end_time c - start c) 1.0 3.0)]"
| "spec_overlap_resolver (c # n # rest) =
     (let ideal_duration = clamp (end_time c - start c) 1.0 3.0;
          max_end_time = start n - 0.1
      in spec_emit c (if start c + ideal_duration > max_end_time
                      then max 0.5 (max_end_time - start c)
                      else ideal_duration))
     # spec_overlap_resolver (n # rest)"

section \<open>Python strings\<close>

text \<open>
  A Python \<^verbatim>\<open>str\<close> is modelled as a \<^typ>\<open>string\<close> whose characters are read as the code
  points below 256. \<open>py_isspace\<close> is \<^verbatim>\<open>str.isspace\<close> on one character of that range:
  tab, line feed, vertical tab, form feed, carriage return, the four separators
  \<^verbatim>\<open>\x1c\<close> to \<^verbatim>\<open>\x1f\<close>, space, next line (\<^verbatim>\<open>\x85\<close>) and no-break space (\<^verbatim>\<open>\xa0\<close>).
\<close>

definition py_isspace :: "char \<Rightarrow> bool" where
  "py_isspace c \<longleftrightarrow>
     c \<in> set [CHR 0x09, CHR 0x0A, CHR 0x0B, CHR 0x0C, CHR 0x0D,
               CHR 0x1C, CHR 0x1D, CHR 0x1E, CHR 0x1F, CHR 0x20, CHR 0x85, CHR 0xA0]"

text \<open>\<^verbatim>\<open>s.strip()\<close>: leading and trailing whitespace removed.\<close>

definition py_strip :: "string \<Rightarrow> string" where
  "py_strip s = rev (dropWhile py_isspace (rev (dropWhile py_isspace s)))"

text \<open>\<^verbatim>\<open>s.endswith(suffix)\<close>, and \<^verbatim>\<open>s.endswith(t)\<close> for a tuple \<^verbatim>\<open>t\<close> of suffixes.\<close>

definition endswith :: "string \<Rightarrow> string \<Rightarrow> bool" where
  "endswith s suffix \<longleftrightarrow>
     length suffix \<le> length s \<and> drop (length s - length suffix) s = suffix"

fun endswith_any :: "string \<Rightarrow> string list \<Rightarrow> bool" where
  "endswith_any s [] = False"
| "endswith_any s (suffix # suffixes) = (endswith s suffix \<or> endswith_any s suffixes)"

text \<open>
  \<^verbatim>\<open>s.lower()\<close> on the code points below 256: the letters A to Z and the capital letters
  of Latin-1 (\<^verbatim>\<open>\xc0\<close> to \<^verbatim>\<open>\xde\<close> without the multiplication sign \<^verbatim>\<open>\xd7\<close>) move up by 32.
\<close>

definition py_lower_char :: "char \<Rightarrow> char" where
  "py_lower_char c =
     (let n = (of_char c :: nat) in
      if (65 \<le> n \<and> n \<le> 90) \<or> (192 \<le> n \<and> n \<le> 222 \<and> n \<noteq> 215)
      then char_of (n + 32) else c)"

definition py_lower :: "string \<Rightarrow> string" where
  "py_lower s = map py_lower_char s"

text \<open>
  \<^verbatim>\<open>s.split()\<close>: the maximal runs of characters that are not whitespace, in order.
  \<open>split_from run s\<close> reads \<open>s\<close> with the run \<open>run\<close> open.
\<close>

fun split_from :: "string \<Rightarrow> string \<Rightarrow> string list" where
  "split_from run [] = (if run = [] then [] else [run])"
| "split_from run (c # cs) =
     (if py_isspace c
      then (if run = [] then split_from [] cs else run # split_from [] cs)
      else split_from (run @ [c]) cs)"

definition py_split :: "string \<Rightarrow> string list" where
  "py_split s = split_from [] s"




text \<open>The exceptions that the modelled code can raise.\<close>

datatype py_error = ZeroDivisionError | ValueError | AttributeError


section \<open>Word grouping\<close>

text \<open>
  A word of the transcript is a dictionary with the keys \<^verbatim>\<open>word\<close>, \<^verbatim>\<open>start\<close> and \<^verbatim>\<open>end\<close>.
\<close>

record timed_word =
  word :: string
  word_start :: real
  word_end :: real

text \<open>
  \<^verbatim>\<open>_create_word_groups\<close> keeps two variables, \<^verbatim>\<open>groups\<close> and \<^verbatim>\<open>current_group\<close>, through its
  loop over the words. \<open>group_step\<close> is the loop body on that pair: append the word,
  then close the group at seven words, or at four or more when the stripped word ends
  in a full stop, an exclamation mark, a question mark or a comma.
\<close>

definition group_step ::
  "timed_word list list \<times> timed_word list \<Rightarrow> timed_word \<Rightarrow>
   timed_word list list \<times> timed_word list" where
  "group_step st w =
     (case st of (groups, current_group) \<Rightarrow>
        let current_group = current_group @ [w] in
        if length current_group \<ge> 7 then (groups @ [current_group], [])
        else if length current_group \<ge> 4 \<and>
                endswith_any (py_strip (word w)) [''.'', ''!'', ''?'', '','']
        then (groups @ [current_group], [])
        else (groups, current_group))"

text \<open>After the loop a group that is still open and not empty is emitted as it is.\<close>

definition create_word_groups :: "timed_word list \<Rightarrow> timed_word list list" where
  "create_word_groups words =
     (case foldl group_step ([], []) words of (groups, current_group) \<Rightarrow>
        if current_group \<noteq> [] then groups @ [current_group] else groups)"


section \<open>Text wrapping\<close>

text \<open>
  \<^verbatim>\<open>_smart_text_wrap\<close> passes the text to \<^verbatim>\<open>textwrap.wrap\<close> with the given width,
  \<^verbatim>\<open>break_long_words=False\<close> and \<^verbatim>\<open>break_on_hyphens=False\<close>, and joins the lines that come
  back with line feeds. The routine \<^verbatim>\<open>textwrap.wrap\<close> belongs to the Python standard
  library and is not among the sources of the repository; the definitions of this
  section that stand for it are marked.
\<close>

subsection \<open>The wrapping routine\<close>














subsection \<open>The function of the repository\<close>



section \<open>Background framing\<close>

text \<open>
  The timing part of \<^verbatim>\<open>_resize_to_shorts_format_with_random_start\<close> (from the line
  \<^verbatim>\<open>background_duration = video_resized.duration\<close> on). The crop and the resize before it
  act on the frame size only. The function ends by returning the result of a method of
  the clip \<^verbatim>\<open>video_resized\<close>: \<^verbatim>\<open>loop(duration=required_duration)\<close> or
  \<^verbatim>\<open>subclipped(random_start, end_time)\<close>. The two methods belong to the video library,
  which is not among the sources; they are parameters of the model, and each of them
  gives a clip or raises. The random source is a parameter too: \<open>uniform a b\<close> is the
  number that \<^verbatim>\<open>random.uniform(a, b)\<close> yields in this run.
\<close>

definition resize_to_shorts_format_with_random_start ::
  "(real \<Rightarrow> real \<Rightarrow> real) \<Rightarrow> (real \<Rightarrow> py_error + 'clip) \<Rightarrow>
   (real \<Rightarrow> real \<Rightarrow> py_error + 'clip) \<Rightarrow> real \<Rightarrow> real \<Rightarrow> py_error + 'clip" where
  "resize_to_shorts_format_with_random_start uniform loop subclipped
       background_duration required_duration =
     (if background_duration < required_duration then loop required_duration
      else
        let max_start_time = background_duration - required_duration;
            random_start = (if max_start_time \<le> 0 then 0 else uniform 0 max_start_time);
            end_time = random_start + required_duration
        in subclipped random_start end_time)"

text \<open>
  Modelled from the spec: the attribute \<^verbatim>\<open>loop\<close> of a clip of the video library, which is
  not among the sources. Section 4.5 of the specification has the source looped when
  it is shorter than the target. The sources use the library under the names of its
  version 2 (\<^verbatim>\<open>from moviepy import VideoFileClip\<close>, \<^verbatim>\<open>resized\<close>, \<^verbatim>\<open>cropped\<close>, \<^verbatim>\<open>subclipped\<close>,
  \<^verbatim>\<open>with_audio\<close>, \<^verbatim>\<open>with_position\<close>). In that version looping is an effect that is
  applied to a clip; a clip has no method \<^verbatim>\<open>loop\<close>, and reading the attribute raises
  \<^verbatim>\<open>AttributeError\<close> whatever the duration asked for.
\<close>

definition moviepy_loop :: "real \<Rightarrow> py_error + 'clip" where
  "moviepy_loop duration_asked = Inl AttributeError"


section \<open>Duplicate facts\<close>

text \<open>
  The fact history \<^verbatim>\<open>self.facts_data\<close> of \<^verbatim>\<open>ScriptGenerator\<close>, in the shape that
  \<^verbatim>\<open>load_facts\<close> and \<^verbatim>\<open>save_facts\<close> keep: a dictionary from topics to lists of entries,
  and the metadata.
\<close>

record fact_entry =
  fact :: string
  full_script :: string
  generated_at :: string
  model :: string

record facts_metadata =
  total_facts :: int
  last_updated :: "string option"

record facts_data =
  facts_by_topic :: "string \<rightharpoonup> fact_entry list"
  metadata :: facts_metadata

definition get_existing_facts :: "facts_data \<Rightarrow> string \<Rightarrow> string list" where
  "get_existing_facts data topic =
     map fact (case facts_by_topic data topic of None \<Rightarrow> [] | Some entries \<Rightarrow> entries)"

text \<open>\<^verbatim>\<open>Config.SIMILARITY_THRESHOLD\<close>.\<close>

definition SIMILARITY_THRESHOLD :: real where
  "SIMILARITY_THRESHOLD = 0.7"

text \<open>
  Python's \<^verbatim>\<open>/\<close> on two non-negative integers raises \<^verbatim>\<open>ZeroDivisionError\<close> for a zero
  divisor; the quotient is read as a real number.
\<close>

definition truediv :: "nat \<Rightarrow> nat \<Rightarrow> py_error + real" where
  "truediv a b = (if b = 0 then Inl ZeroDivisionError else Inr (real a / real b))"

text \<open>
  The body of the loop of \<^verbatim>\<open>is_fact_duplicate\<close> for one stored fact: \<open>Inr True\<close> when the
  body executes \<^verbatim>\<open>return True\<close>, \<open>Inr False\<close> when it falls through to the next stored
  fact, \<open>Inl\<close> when it raises.
\<close>

definition too_similar :: "string set \<Rightarrow> string \<Rightarrow> py_error + bool" where
  "too_similar new_fact_words existing_fact =
     (let existing_words = set (py_split (py_lower existing_fact));
          intersection = card (new_fact_words \<inter> existing_words);
          union = card (new_fact_words \<union> existing_words)
      in if union > 0
         then (case truediv intersection union of
                 Inl e \<Rightarrow> Inl e
               | Inr similarity \<Rightarrow> Inr (similarity > SIMILARITY_THRESHOLD))
         else Inr False)"

fun duplicate_loop :: "string set \<Rightarrow> string list \<Rightarrow> py_error + bool" where
  "duplicate_loop new_fact_words [] = Inr False"
| "duplicate_loop new_fact_words (existing_fact # existing_facts) =
     (case too_similar new_fact_words existing_fact of
        Inl e \<Rightarrow> Inl e
      | Inr True \<Rightarrow> Inr True
      | Inr False \<Rightarrow> duplicate_loop new_fact_words existing_facts)"

definition is_fact_duplicate :: "facts_data \<Rightarrow> string \<Rightarrow> string \<Rightarrow> py_error + bool" where
  "is_fact_duplicate data new_fact topic =
     (let existing_facts = get_existing_facts data topic;
          new_fact_words = set (py_split (py_lower new_fact))
      in duplicate_loop new_fact_words existing_facts)"


section \<open>Loop invariants\<close>

subsection \<open>Word grouping\<close>

text \<open>
  The invariant of the loop of \<^verbatim>\<open>_create_word_groups\<close>. A group that the loop has
  closed has seven words, or four to six with a last word that ends a clause; the closed
  groups followed by the open one are the words read so far; the open group has fewer
  than seven words.
\<close>

definition ends_clause :: "timed_word \<Rightarrow> bool" where
  "ends_clause w = endswith_any (py_strip (word w)) [''.'', ''!'', ''?'', '','']"

definition closed_group :: "timed_word list \<Rightarrow> bool" where
  "closed_group g \<longleftrightarrow>
     length g = 7 \<or> (4 \<le> length g \<and> length g < 7 \<and> ends_clause (last g))"

definition group_inv ::
  "timed_word list \<Rightarrow> timed_word list list \<times> timed_word list \<Rightarrow> bool" where
  "group_inv ws st \<longleftrightarrow>
     (case st of (groups, current_group) \<Rightarrow>
        concat groups @ current_group = ws \<and>
        list_all closed_group groups \<and> length current_group < 7)"


subsection \<open>Text wrapping\<close>









section \<open>Properties of the overlap resolver\<close>

lemmas timing_defs = min_gap_between_text_def min_display_time_def max_display_time_def

text \<open>
  The loop over \<^verbatim>\<open>enumerate(segments)\<close>, started anywhere inside the list, computes
  what the recursion of the specification computes on the rest of the list.
\<close>

lemma fix_segment_enumerate:
  "map (fix_segment (pre @ xs)) (enumerate (length pre) xs) = spec_overlap_resolver xs"
proof (induction xs arbitrary: pre rule: spec_overlap_resolver.induct)
  case 1
  show ?case by simp
next
  case (2 c)
  show ?case
    by (simp add: fix_segment_def spec_emit_def clamp_def timing_defs Let_def)
next
  case (3 c n rest)
  have nxt: "(pre @ c # n # rest) ! Suc (length pre) = n"
    by (simp add: nth_append)
  have hd: "fix_segment (pre @ c # n # rest) (length pre, c) =
      (let ideal_duration = clamp (end_time c - start c) 1.0 3.0;
           max_end_time = start n - 0.1
       in spec_emit c (if start c + ideal_duration > max_end_time
                       then max 0.5 (max_end_time - start c)
                       else ideal_duration))"
    using nxt by (simp add: fix_segment_def spec_emit_def clamp_def timing_defs Let_def)
  have tl: "map (fix_segment (pre @ c # n # rest)) (enumerate (Suc (length pre)) (n # rest))
      = spec_overlap_resolver (n # rest)"
    using "3.IH" [of "pre @ [c]"] by simp
  show ?case
    using hd tl
    by (simp del: spec_overlap_resolver.simps(3)
             add: spec_overlap_resolver.simps(3) [of c n rest])
qed

lemma fix_length: "length (fix_timing_overlaps segments) = length segments"
  by (simp add: fix_timing_overlaps_def)

lemma fix_nth:
  "i < length segments \<Longrightarrow>
   fix_timing_overlaps segments ! i = fix_segment segments (i, segments ! i)"
  by (auto simp add: fix_timing_overlaps_def nth_enumerate_eq)

lemma fix_segment_text: "text (fix_segment segments (i, seg)) = text seg"
  by (simp add: fix_segment_def Let_def)

lemma fix_segment_start: "start (fix_segment segments (i, seg)) = start seg"
  by (simp add: fix_segment_def Let_def)

lemma fix_segment_duration_ge: "min_display_time \<le> duration (fix_segment segments (i, seg))"
  by (simp add: fix_segment_def Let_def)

lemma fix_last:
  "duration (last (fix_timing_overlaps (init @ [c]))) =
     max 1.0 (clamp (end_time c - start c) 1.0 3.0)"
proof -
  let ?out = "fix_timing_overlaps (init @ [c])"
  have len: "length ?out = Suc (length init)"
    by (simp add: fix_length)
  then have ne: "?out \<noteq> []"
    by auto
  have "last ?out = ?out ! (length ?out - 1)"
    by (rule last_conv_nth [OF ne])
  also have "\<dots> = ?out ! length init"
    by (simp add: len)
  also have "\<dots> = fix_segment (init @ [c]) (length init, c)"
    using fix_nth [of "length init" "init @ [c]"] by simp
  finally show ?thesis
    by (simp add: fix_segment_def clamp_def timing_defs Let_def)
qed

text \<open>
  With a successor that starts at least \<open>min_display_time\<close> later, the cue ends no later
  than the successor starts.
\<close>

lemma fix_segment_no_overlap:
  assumes "i < length segments - 1"
    and "min_display_time \<le> start (segments ! (i + 1)) - start seg"
  shows "start seg + duration (fix_segment segments (i, seg)) \<le> start (segments ! (i + 1))"
  using assms by (simp add: fix_segment_def timing_defs Let_def max_def min_def)

text \<open>
  Claim C1. The overlap resolver computes exactly the per-cue algorithm of section 4.2
  of the specification: on every list of raw cues the loop of the source returns the
  list that the specification's recursion returns (clamp to [1.0, 3.0]; with a
  successor, and if the cue would end after the successor's start less 0.1, replace
  the duration by the larger of 0.5 and the time up to that point; emit the larger of
  1.0 and the result). The last cue of any list has no successor and gets its clamped
  duration, floored at 1.0.
\<close>

theorem overlap_resolver_implements_spec:
  "fix_timing_overlaps segments = spec_overlap_resolver segments \<and>
   duration (last (fix_timing_overlaps (init @ [c]))) =
     max 1.0 (clamp (end_time c - start c) 1.0 3.0)"
proof
  show "fix_timing_overlaps segments = spec_overlap_resolver segments"
    using fix_segment_enumerate [of "[]" segments]
    by (simp add: fix_timing_overlaps_def)
  show "duration (last (fix_timing_overlaps (init @ [c]))) =
     max 1.0 (clamp (end_time c - start c) 1.0 3.0)"
    by (rule fix_last)
qed

text \<open>
  The end-to-end scenario of section 8 of the specification, run through the source's
  loop and through the specification's recursion.
\<close>

theorem overlap_resolver_implements_spec_witness:
  "fix_timing_overlaps
     [\<lparr>text = ''Sharks'', start = 0.0, end_time = 1.2\<rparr>,
      \<lparr>text = ''never sleep'', start = 1.25, end_time = 2.0\<rparr>]
   = [\<lparr>text = ''Sharks'', start = 0.0, duration = 1.15\<rparr>,
      \<lparr>text = ''never sleep'', start = 1.25, duration = 1.0\<rparr>]"
  using overlap_resolver_implements_spec
    [of "[\<lparr>text = ''Sharks'', start = 0.0, end_time = 1.2\<rparr>,
          \<lparr>text = ''never sleep'', start = 1.25, end_time = 2.0\<rparr>]"]
  by (simp add: spec_emit_def clamp_def)

text \<open>
  Claim C2. The output of the overlap resolver has as many cues as the input, and the
  cue at every index keeps the start and the text of the raw cue at that index: no cue
  is moved, dropped, added or reordered.
\<close>

theorem overlap_resolver_preserves_cues:
  "length (fix_timing_overlaps segments) = length segments \<and>
   (\<forall>i<length segments.
      start (fix_timing_overlaps segments ! i) = start (segments ! i) \<and>
      text (fix_timing_overlaps segments ! i) = text (segments ! i))"
  by (simp add: fix_length fix_nth fix_segment_start fix_segment_text)

theorem overlap_resolver_preserves_cues_witness:
  "length (fix_timing_overlaps
     [\<lparr>text = ''Sharks'', start = 0.0, end_time = 1.2\<rparr>,
      \<lparr>text = ''never sleep'', start = 1.25, end_time = 2.0\<rparr>]) = 2 \<and>
   start (fix_timing_overlaps
     [\<lparr>text = ''Sharks'', start = 0.0, end_time = 1.2\<rparr>,
      \<lparr>text = ''never sleep'', start = 1.25, end_time = 2.0\<rparr>] ! 1) = 1.25 \<and>
   text (fix_timing_overlaps
     [\<lparr>text = ''Sharks'', start = 0.0, end_time = 1.2\<rparr>,
      \<lparr>text = ''never sleep'', start = 1.25, end_time = 2.0\<rparr>] ! 1) = ''never sleep''"
  using overlap_resolver_preserves_cues
    [of "[\<lparr>text = ''Sharks'', start = 0.0, end_time = 1.2\<rparr>,
          \<lparr>text = ''never sleep'', start = 1.25, end_time = 2.0\<rparr>]"]
  by simp

text \<open>
  Claim C3. Every output cue lasts at least 0.5 seconds; and a cue whose successor
  starts at least \<open>min_display_time + min_gap_between_text\<close> (1.1 seconds) after it
  lasts at least \<open>min_display_time\<close> (1.0 second).
\<close>

theorem overlap_resolver_duration_bound:
  assumes "i < length segments"
  shows "0.5 \<le> duration (fix_timing_overlaps segments ! i) \<and>
         (i + 1 < length segments \<and>
          min_display_time + min_gap_between_text
            \<le> start (segments ! (i + 1)) - start (segments ! i)
          \<longrightarrow> min_display_time \<le> duration (fix_timing_overlaps segments ! i))"
proof -
  have "min_display_time \<le> duration (fix_timing_overlaps segments ! i)"
    using assms by (simp add: fix_nth fix_segment_duration_ge)
  then show ?thesis
    by (simp add: min_display_time_def)
qed

theorem overlap_resolver_duration_bound_witness:
  "(0::nat) < length
     [\<lparr>text = ''Sharks'', start = 0.0, end_time = 1.2\<rparr>,
      \<lparr>text = ''never sleep'', start = 1.25, end_time = 2.0\<rparr>] \<and>
   (0::nat) + 1 < length
     [\<lparr>text = ''Sharks'', start = 0.0, end_time = 1.2\<rparr>,
      \<lparr>text = ''never sleep'', start = 1.25, end_time = 2.0\<rparr>] \<and>
   min_display_time + min_gap_between_text \<le> 1.25 - 0.0 \<and>
   0.5 \<le> duration (fix_timing_overlaps
     [\<lparr>text = ''Sharks'', start = 0.0, end_time = 1.2\<rparr>,
      \<lparr>text = ''never sleep'', start = 1.25, end_time = 2.0\<rparr>] ! 0) \<and>
   min_display_time \<le> duration (fix_timing_overlaps
     [\<lparr>text = ''Sharks'', start = 0.0, end_time = 1.2\<rparr>,
      \<lparr>text = ''never sleep'', start = 1.25, end_time = 2.0\<rparr>] ! 0)"
  using overlap_resolver_duration_bound
    [of 0 "[\<lparr>text = ''Sharks'', start = 0.0, end_time = 1.2\<rparr>,
            \<lparr>text = ''never sleep'', start = 1.25, end_time = 2.0\<rparr>]"]
  by (simp add: timing_defs)

text \<open>
  Claim C4, as stated, fails: two raw cues sorted by start, the second starting 0.3
  seconds after the first. The first output cue lasts 1.0 second and is still on
  screen when the second starts.
\<close>

theorem overlap_resolver_overlap_counterexample:
  "sorted (map start
     [\<lparr>text = ''never'', start = 0.0, end_time = 0.2\<rparr>,
      \<lparr>text = ''sleep'', start = 0.3, end_time = 0.6\<rparr>]) \<and>
   \<not> (start (fix_timing_overlaps
          [\<lparr>text = ''never'', start = 0.0, end_time = 0.2\<rparr>,
           \<lparr>text = ''sleep'', start = 0.3, end_time = 0.6\<rparr>] ! 0)
      + duration (fix_timing_overlaps
          [\<lparr>text = ''never'', start = 0.0, end_time = 0.2\<rparr>,
           \<lparr>text = ''sleep'', start = 0.3, end_time = 0.6\<rparr>] ! 0)
      \<le> start (fix_timing_overlaps
          [\<lparr>text = ''never'', start = 0.0, end_time = 0.2\<rparr>,
           \<lparr>text = ''sleep'', start = 0.3, end_time = 0.6\<rparr>] ! 1))"
  by (simp add: fix_timing_overlaps_def fix_segment_def timing_defs enumerate_eq_zip upt_rec)

text \<open>
  Claim C4, amended. For every list of raw cues and every cue whose successor starts at
  least \<open>min_display_time\<close> (1.0 second) after it, the output cue has ended when its
  successor starts. Nothing is said about closer cues.
\<close>

theorem overlap_resolver_no_overlap_with_room:
  assumes "i + 1 < length segments"
    and "min_display_time \<le> start (segments ! (i + 1)) - start (segments ! i)"
  shows "start (fix_timing_overlaps segments ! i) + duration (fix_timing_overlaps segments ! i)
         \<le> start (fix_timing_overlaps segments ! (i + 1))"
proof -
  have i: "i < length segments" and i': "i < length segments - 1"
    using assms(1) by simp_all
  have "start (segments ! i) + duration (fix_segment segments (i, segments ! i))
        \<le> start (segments ! (i + 1))"
    using i' assms(2) by (rule fix_segment_no_overlap)
  then show ?thesis
    using assms(1) i by (simp add: fix_nth fix_segment_start)
qed

theorem overlap_resolver_no_overlap_with_room_witness:
  "(0::nat) + 1 < length
     [\<lparr>text = ''Sharks'', start = 0.0, end_time = 1.2\<rparr>,
      \<lparr>text = ''never sleep'', start = 1.25, end_time = 2.0\<rparr>] \<and>
   min_display_time \<le> 1.25 - 0.0 \<and>
   start (fix_timing_overlaps
     [\<lparr>text = ''Sharks'', start = 0.0, end_time = 1.2\<rparr>,
      \<lparr>text = ''never sleep'', start = 1.25, end_time = 2.0\<rparr>] ! 0)
   + duration (fix_timing_overlaps
     [\<lparr>text = ''Sharks'', start = 0.0, end_time = 1.2\<rparr>,
      \<lparr>text = ''never sleep'', start = 1.25, end_time = 2.0\<rparr>] ! 0)
   \<le> 1.25"
  using overlap_resolver_no_overlap_with_room
    [of 0 "[\<lparr>text = ''Sharks'', start = 0.0, end_time = 1.2\<rparr>,
            \<lparr>text = ''never sleep'', start = 1.25, end_time = 2.0\<rparr>]"]
  by (simp add: timing_defs fix_nth fix_segment_start)

text \<open>
  Claim C5 says that some input makes the resolver emit a duration below
  \<open>min_display_time\<close> and at least 0.5. On two cues starting 0.7 seconds apart the
  shrink step of the source computes \<open>max 0.5 (0.7 - 0.1 - 0.0) = 0.6\<close>, and the final
  \<^verbatim>\<open>max(self.min_display_time, ideal_duration)\<close> raises it to 1.0 again: the first cue is
  emitted with duration 1.0 and overlaps the second.
\<close>

theorem overlap_resolver_floor_unreachable:
  "duration (fix_timing_overlaps
     [\<lparr>text = ''Sharks'', start = 0.0, end_time = 1.2\<rparr>,
      \<lparr>text = ''never sleep'', start = 0.7, end_time = 2.0\<rparr>] ! 0) = 1.0 \<and>
   max 0.5 ((0.7 - min_gap_between_text) - 0.0) = (0.6::real)"
  by (simp add: fix_timing_overlaps_def fix_segment_def timing_defs enumerate_eq_zip upt_rec)

section \<open>Properties of word grouping\<close>

lemma group_step_inv:
  assumes "group_inv ws st"
  shows "group_inv (ws @ [w]) (group_step st w)"
proof -
  obtain groups cur where st: "st = (groups, cur)"
    by (cases st)
  from assms st have c: "concat groups @ cur = ws"
    and g: "list_all closed_group groups" and l: "length cur < 7"
    by (simp_all add: group_inv_def)
  show ?thesis
  proof (cases "length (cur @ [w]) \<ge> 7")
    case True
    with l have "length (cur @ [w]) = 7" by simp
    then have "closed_group (cur @ [w])" by (simp add: closed_group_def)
    with True c g show ?thesis
      by (simp add: st group_step_def group_inv_def Let_def)
  next
    case False
    show ?thesis
    proof (cases "length (cur @ [w]) \<ge> 4 \<and> ends_clause w")
      case True
      with False have "closed_group (cur @ [w])" by (simp add: closed_group_def)
      with True False c g show ?thesis
        by (simp add: st group_step_def group_inv_def Let_def ends_clause_def)
    next
      case nc: False
      with False c g show ?thesis
        by (auto simp add: st group_step_def group_inv_def Let_def ends_clause_def)
    qed
  qed
qed

lemma foldl_group_inv: "group_inv ws (foldl group_step ([], []) ws)"
proof (induction ws rule: rev_induct)
  case Nil
  show ?case by (simp add: group_inv_def)
next
  case (snoc w ws)
  then show ?case by (simp add: group_step_inv)
qed

lemma closed_group_bounds: "closed_group g \<Longrightarrow> 4 \<le> length g \<and> length g \<le> 7"
  by (auto simp add: closed_group_def)

lemma create_word_groups_cases:
  obtains groups cur where "foldl group_step ([], []) ws = (groups, cur)"
    and "concat groups @ cur = ws" and "list_all closed_group groups" and "length cur < 7"
    and "create_word_groups ws = (if cur \<noteq> [] then groups @ [cur] else groups)"
proof -
  obtain groups cur where f: "foldl group_step ([], []) ws = (groups, cur)"
    by (cases "foldl group_step ([], []) ws")
  with foldl_group_inv [of ws] have "concat groups @ cur = ws"
    "list_all closed_group groups" "length cur < 7"
    by (simp_all add: group_inv_def)
  moreover from f have "create_word_groups ws = (if cur \<noteq> [] then groups @ [cur] else groups)"
    by (simp add: create_word_groups_def)
  ultimately show thesis using f that by blast
qed

lemma groups_concat: "concat (create_word_groups ws) = ws"
  by (rule create_word_groups_cases [of ws]) auto

lemma groups_size:
  assumes "g \<in> set (create_word_groups ws)"
  shows "1 \<le> length g \<and> length g \<le> 7"
proof (rule create_word_groups_cases [of ws])
  fix groups cur
  assume a: "list_all closed_group groups" "length cur < 7"
    "create_word_groups ws = (if cur \<noteq> [] then groups @ [cur] else groups)"
  from assms a(3) consider "g \<in> set groups" | "g = cur" "cur \<noteq> []"
    by (auto split: if_splits)
  then show "1 \<le> length g \<and> length g \<le> 7"
  proof cases
    case 1
    with a(1) have "closed_group g" by (simp add: list_all_iff)
    then show ?thesis using closed_group_bounds [of g] by simp
  next
    case 2
    with a(2) show ?thesis by (cases cur) simp_all
  qed
qed

lemma groups_nonfinal_closed:
  assumes "i + 1 < length (create_word_groups ws)"
  shows "closed_group (create_word_groups ws ! i)"
proof (rule create_word_groups_cases [of ws])
  fix groups cur
  assume a: "list_all closed_group groups"
    "create_word_groups ws = (if cur \<noteq> [] then groups @ [cur] else groups)"
  from assms a(2) have "i < length groups" and "create_word_groups ws ! i = groups ! i"
    by (auto simp add: nth_append split: if_splits)
  with a(1) show ?thesis by (simp add: list_all_length)
qed

lemmas group_eval = create_word_groups_def group_step_def py_strip_def py_isspace_def
  endswith_def

text \<open>
  Claim C6. For every sequence of words, the groups of \<open>create_word_groups\<close> put end to
  end are the input sequence again (each word once, in order), every group has between
  one and seven words, and no words give no groups.
\<close>

theorem word_groups_cover_input:
  "concat (create_word_groups words) = words \<and>
   (\<forall>g \<in> set (create_word_groups words). 1 \<le> length g \<and> length g \<le> 7) \<and>
   create_word_groups [] = []"
proof (intro conjI ballI)
  show "concat (create_word_groups words) = words"
    by (rule groups_concat)
  show "create_word_groups [] = []"
    by (simp add: create_word_groups_def)
next
  fix g assume "g \<in> set (create_word_groups words)"
  then show "1 \<le> length g" and "length g \<le> 7"
    using groups_size [of g words] by simp_all
qed

theorem word_groups_cover_input_witness:
  "[\<lparr>word = '' a'', word_start = 4.5, word_end = 4.6\<rparr>]
     \<in> set (create_word_groups
         [\<lparr>word = '' The'', word_start = 0.0, word_end = 0.4\<rparr>,
          \<lparr>word = '' quick'', word_start = 0.4, word_end = 1.0\<rparr>,
          \<lparr>word = '' brown'', word_start = 1.0, word_end = 1.5\<rparr>,
          \<lparr>word = '' fox,'', word_start = 1.5, word_end = 2.0\<rparr>,
          \<lparr>word = '' a'', word_start = 4.5, word_end = 4.6\<rparr>]) \<and>
   concat (create_word_groups
         [\<lparr>word = '' The'', word_start = 0.0, word_end = 0.4\<rparr>,
          \<lparr>word = '' quick'', word_start = 0.4, word_end = 1.0\<rparr>,
          \<lparr>word = '' brown'', word_start = 1.0, word_end = 1.5\<rparr>,
          \<lparr>word = '' fox,'', word_start = 1.5, word_end = 2.0\<rparr>,
          \<lparr>word = '' a'', word_start = 4.5, word_end = 4.6\<rparr>])
     = [\<lparr>word = '' The'', word_start = 0.0, word_end = 0.4\<rparr>,
        \<lparr>word = '' quick'', word_start = 0.4, word_end = 1.0\<rparr>,
        \<lparr>word = '' brown'', word_start = 1.0, word_end = 1.5\<rparr>,
        \<lparr>word = '' fox,'', word_start = 1.5, word_end = 2.0\<rparr>,
        \<lparr>word = '' a'', word_start = 4.5, word_end = 4.6\<rparr>] \<and>
   1 \<le> length [\<lparr>word = '' a'', word_start = 4.5, word_end = 4.6\<rparr>] \<and>
   length [\<lparr>word = '' a'', word_start = 4.5, word_end = 4.6\<rparr>] \<le> 7"
  using word_groups_cover_input
    [of "[\<lparr>word = '' The'', word_start = 0.0, word_end = 0.4\<rparr>,
          \<lparr>word = '' quick'', word_start = 0.4, word_end = 1.0\<rparr>,
          \<lparr>word = '' brown'', word_start = 1.0, word_end = 1.5\<rparr>,
          \<lparr>word = '' fox,'', word_start = 1.5, word_end = 2.0\<rparr>,
          \<lparr>word = '' a'', word_start = 4.5, word_end = 4.6\<rparr>]"]
  by (simp add: group_eval)

text \<open>
  Claim C7. Every output group other than the last has at least four words, and when
  it has fewer than seven, the stripped text of its last word ends in one of
  \<^verbatim>\<open>. ! ? ,\<close>: punctuation closes no group of fewer than four words, and nothing but
  punctuation closes a group of fewer than seven.
\<close>

theorem word_groups_boundary:
  assumes "i + 1 < length (create_word_groups words)"
  shows "4 \<le> length (create_word_groups words ! i) \<and>
         (length (create_word_groups words ! i) < 7 \<longrightarrow>
          endswith_any (py_strip (word (last (create_word_groups words ! i))))
            [''.'', ''!'', ''?'', '',''])"
  using groups_nonfinal_closed [OF assms]
  by (auto simp add: closed_group_def ends_clause_def)

theorem word_groups_boundary_witness:
  "(0::nat) + 1 < length (create_word_groups
         [\<lparr>word = '' The'', word_start = 0.0, word_end = 0.4\<rparr>,
          \<lparr>word = '' quick'', word_start = 0.4, word_end = 1.0\<rparr>,
          \<lparr>word = '' brown'', word_start = 1.0, word_end = 1.5\<rparr>,
          \<lparr>word = '' fox, '', word_start = 1.5, word_end = 2.0\<rparr>,
          \<lparr>word = '' a'', word_start = 4.5, word_end = 4.6\<rparr>]) \<and>
   length (create_word_groups
         [\<lparr>word = '' The'', word_start = 0.0, word_end = 0.4\<rparr>,
          \<lparr>word = '' quick'', word_start = 0.4, word_end = 1.0\<rparr>,
          \<lparr>word = '' brown'', word_start = 1.0, word_end = 1.5\<rparr>,
          \<lparr>word = '' fox, '', word_start = 1.5, word_end = 2.0\<rparr>,
          \<lparr>word = '' a'', word_start = 4.5, word_end = 4.6\<rparr>] ! 0) = 4 \<and>
   endswith_any (py_strip '' fox, '') [''.'', ''!'', ''?'', '','']"
  using word_groups_boundary
    [of 0 "[\<lparr>word = '' The'', word_start = 0.0, word_end = 0.4\<rparr>,
            \<lparr>word = '' quick'', word_start = 0.4, word_end = 1.0\<rparr>,
            \<lparr>word = '' brown'', word_start = 1.0, word_end = 1.5\<rparr>,
            \<lparr>word = '' fox, '', word_start = 1.5, word_end = 2.0\<rparr>,
            \<lparr>word = '' a'', word_start = 4.5, word_end = 4.6\<rparr>]"]
  by (simp add: group_eval)


section \<open>Properties of text wrapping\<close>

subsection \<open>Splitting at whitespace\<close>







subsection \<open>Normalising the whitespace\<close>







subsection \<open>Chunks\<close>









subsection \<open>One line\<close>











subsection \<open>The loop\<close>



subsection \<open>Joining and splitting lines\<close>






subsection \<open>The wrapped text\<close>










section \<open>Properties of background framing\<close>

text \<open>
  Claim C9. When the source is at least as long as the target, the function cuts the
  window from \<open>start_offset\<close> to \<open>start_offset + target_duration\<close>, and for every number
  that the random source yields between \<open>0\<close> and \<open>source_duration - target_duration\<close>
  the offset is not negative and the window ends inside the source; the offset is \<open>0\<close>
  when the two durations are equal. This half of the claim holds whatever the methods
  of the clip do. When the source is shorter than the target, the function returns
  what the attribute \<^verbatim>\<open>loop\<close> of the clip gives; on a clip of the library that the sources
  import this raises \<^verbatim>\<open>AttributeError\<close>, so no clip of the target duration comes out.
\<close>

theorem background_window_and_loop:
  "(target_duration \<le> source_duration \<and>
    0 \<le> uniform 0 (source_duration - target_duration) \<and>
    uniform 0 (source_duration - target_duration) \<le> source_duration - target_duration \<longrightarrow>
      (\<exists>start_offset.
         resize_to_shorts_format_with_random_start uniform loop subclipped
             source_duration target_duration
           = subclipped start_offset (start_offset + target_duration) \<and>
         0 \<le> start_offset \<and>
         start_offset + target_duration \<le> source_duration \<and>
         (source_duration = target_duration \<longrightarrow> start_offset = 0))) \<and>
   (source_duration < target_duration \<longrightarrow>
      resize_to_shorts_format_with_random_start uniform loop subclipped
          source_duration target_duration
        = loop target_duration) \<and>
   (source_duration < target_duration \<longrightarrow>
      resize_to_shorts_format_with_random_start uniform moviepy_loop subclipped
          source_duration target_duration
        = Inl AttributeError)"
proof (intro conjI impI)
  assume a: "target_duration \<le> source_duration \<and>
    0 \<le> uniform 0 (source_duration - target_duration) \<and>
    uniform 0 (source_duration - target_duration) \<le> source_duration - target_duration"
  let ?s = "if source_duration - target_duration \<le> 0 then 0
            else uniform 0 (source_duration - target_duration)"
  from a have "resize_to_shorts_format_with_random_start uniform loop subclipped
      source_duration target_duration = subclipped ?s (?s + target_duration)"
    by (simp add: resize_to_shorts_format_with_random_start_def Let_def)
  moreover from a have "0 \<le> ?s" and "?s + target_duration \<le> source_duration"
    by simp_all
  moreover have "source_duration = target_duration \<longrightarrow> ?s = 0"
    by simp
  ultimately show "\<exists>start_offset.
         resize_to_shorts_format_with_random_start uniform loop subclipped
             source_duration target_duration
           = subclipped start_offset (start_offset + target_duration) \<and>
         0 \<le> start_offset \<and>
         start_offset + target_duration \<le> source_duration \<and>
         (source_duration = target_duration \<longrightarrow> start_offset = 0)"
    by blast
next
  assume "source_duration < target_duration"
  then show "resize_to_shorts_format_with_random_start uniform loop subclipped
      source_duration target_duration = loop target_duration"
    by (simp add: resize_to_shorts_format_with_random_start_def)
next
  assume "source_duration < target_duration"
  then show "resize_to_shorts_format_with_random_start uniform moviepy_loop subclipped
      source_duration target_duration = Inl AttributeError"
    by (simp add: resize_to_shorts_format_with_random_start_def moviepy_loop_def)
qed

text \<open>
  A source of 10 seconds, a random source that yields the midpoint, and a method
  \<^verbatim>\<open>subclipped\<close> that gives the interval it is asked for: for a target of 4 seconds the
  window is from 3 to 7, for a target of 10 seconds it starts at 0, and for a target of
  12 seconds the function raises.
\<close>

theorem background_window_and_loop_witness:
  "(4::real) \<le> 10 \<and> (0::real) \<le> (0 + (10 - 4)) / 2 \<and> (0 + (10 - 4)) / 2 \<le> (10::real) - 4 \<and>
   resize_to_shorts_format_with_random_start (\<lambda>a b. (a + b) / 2) moviepy_loop
       (\<lambda>t_start t_end. Inr (t_start, t_end)) 10 4 = Inr (3, 7) \<and>
   resize_to_shorts_format_with_random_start (\<lambda>a b. (a + b) / 2) moviepy_loop
       (\<lambda>t_start t_end. Inr (t_start, t_end)) 10 10 = Inr (0, 10) \<and>
   (10::real) < 12 \<and>
   resize_to_shorts_format_with_random_start (\<lambda>a b. (a + b) / 2) moviepy_loop
       (\<lambda>t_start t_end. Inr (t_start, t_end)) 10 12
     = (Inl AttributeError :: py_error + real \<times> real)"
  using background_window_and_loop
      [of 4 10 "\<lambda>a b. (a + b) / 2" moviepy_loop "\<lambda>t_start t_end. Inr (t_start, t_end)"]
    background_window_and_loop
      [of 10 10 "\<lambda>a b. (a + b) / 2" moviepy_loop "\<lambda>t_start t_end. Inr (t_start, t_end)"]
    background_window_and_loop
      [of 12 10 "\<lambda>a b. (a + b) / 2" moviepy_loop "\<lambda>t_start t_end. Inr (t_start, t_end)"]
  by (simp add: resize_to_shorts_format_with_random_start_def moviepy_loop_def)


section \<open>Properties of duplicate detection\<close>

abbreviation word_set :: "string \<Rightarrow> string set" where
  "word_set s \<equiv> set (py_split (py_lower s))"

lemma too_similar_total: "\<exists>b. too_similar new_words existing_fact = Inr b"
  by (auto simp add: too_similar_def truediv_def Let_def)

lemma too_similar_True:
  "too_similar new_words existing_fact = Inr True \<longleftrightarrow>
     0 < card (new_words \<union> word_set existing_fact) \<and>
     real (card (new_words \<inter> word_set existing_fact))
       / real (card (new_words \<union> word_set existing_fact)) > SIMILARITY_THRESHOLD"
  by (simp add: too_similar_def truediv_def Let_def)

lemma too_similar_empty:
  "card (new_words \<union> word_set existing_fact) = 0 \<Longrightarrow>
   too_similar new_words existing_fact = Inr False"
  by (simp add: too_similar_def Let_def)

lemma duplicate_loop_total: "\<exists>b. duplicate_loop new_words existing_facts = Inr b"
proof (induction existing_facts)
  case Nil
  show ?case by auto
next
  case (Cons existing_fact existing_facts)
  obtain b where "too_similar new_words existing_fact = Inr b"
    using too_similar_total by blast
  with Cons show ?case by (cases b) auto
qed

lemma duplicate_loop_True:
  "duplicate_loop new_words existing_facts = Inr True \<longleftrightarrow>
   (\<exists>existing_fact \<in> set existing_facts. too_similar new_words existing_fact = Inr True)"
proof (induction existing_facts)
  case Nil
  show ?case by simp
next
  case (Cons existing_fact existing_facts)
  obtain b where "too_similar new_words existing_fact = Inr b"
    using too_similar_total by blast
  with Cons show ?case by (cases b) auto
qed

text \<open>Lower-casing and splitting of some facts, computed.\<close>

lemma split_lower_examples:
  "py_split (py_lower ''Sharks never sleep'') = [''sharks'', ''never'', ''sleep'']"
  "py_split (py_lower ''sharks NEVER sleep'') = [''sharks'', ''never'', ''sleep'']"
  "py_split (py_lower '' '') = []"
  "py_split (py_lower '''') = []"
  by code_simp+

text \<open>
  Claim C10. \<open>is_fact_duplicate\<close> returns a truth value for every fact history, new fact
  and topic; it never raises \<open>ZeroDivisionError\<close>, because the quotient of the two
  cardinalities is taken under the guard \<^verbatim>\<open>union > 0\<close> only. A stored fact with no words
  compared with a new fact with no words is passed over and not reported. The function
  returns \<open>True\<close> only if some stored fact of the topic has a Jaccard similarity with the
  new fact that is strictly greater than 0.7.
\<close>

theorem is_fact_duplicate_total:
  "(\<exists>b. is_fact_duplicate data new_fact topic = Inr b) \<and>
   (word_set new_fact = {} \<and> word_set existing_fact = {} \<longrightarrow>
      too_similar (word_set new_fact) existing_fact = Inr False \<and>
      duplicate_loop (word_set new_fact) [existing_fact] = Inr False) \<and>
   (is_fact_duplicate data new_fact topic = Inr True \<longrightarrow>
      (\<exists>existing_fact \<in> set (get_existing_facts data topic).
         0 < card (word_set new_fact \<union> word_set existing_fact) \<and>
         real (card (word_set new_fact \<inter> word_set existing_fact))
           / real (card (word_set new_fact \<union> word_set existing_fact)) > 0.7))"
proof (intro conjI impI)
  show "\<exists>b. is_fact_duplicate data new_fact topic = Inr b"
    by (simp add: is_fact_duplicate_def Let_def duplicate_loop_total)
next
  assume "word_set new_fact = {} \<and> word_set existing_fact = {}"
  then have e: "too_similar (word_set new_fact) existing_fact = Inr False"
    by (simp add: too_similar_empty)
  then show "too_similar (word_set new_fact) existing_fact = Inr False" .
  from e show "duplicate_loop (word_set new_fact) [existing_fact] = Inr False"
    by simp
next
  assume "is_fact_duplicate data new_fact topic = Inr True"
  then have "\<exists>existing_fact \<in> set (get_existing_facts data topic).
      too_similar (word_set new_fact) existing_fact = Inr True"
    by (simp add: is_fact_duplicate_def Let_def duplicate_loop_True)
  then show "\<exists>existing_fact \<in> set (get_existing_facts data topic).
         0 < card (word_set new_fact \<union> word_set existing_fact) \<and>
         real (card (word_set new_fact \<inter> word_set existing_fact))
           / real (card (word_set new_fact \<union> word_set existing_fact)) > 0.7"
    by (simp add: too_similar_True SIMILARITY_THRESHOLD_def)
qed

theorem is_fact_duplicate_total_witness:
  "is_fact_duplicate
     \<lparr>facts_by_topic =
        [''Animals'' \<mapsto> [\<lparr>fact = ''Sharks never sleep'', full_script = ''Did you know?'',
                            generated_at = ''2025-01-01'', model = ''gemini-2.5-flash''\<rparr>]],
      metadata = \<lparr>total_facts = 1, last_updated = None\<rparr>\<rparr>
     ''sharks NEVER sleep'' ''Animals'' = Inr True \<and>
   (\<exists>existing_fact \<in> set [''Sharks never sleep''].
      0 < card (word_set ''sharks NEVER sleep'' \<union> word_set existing_fact) \<and>
      real (card (word_set ''sharks NEVER sleep'' \<inter> word_set existing_fact))
        / real (card (word_set ''sharks NEVER sleep'' \<union> word_set existing_fact)) > 0.7) \<and>
   word_set '' '' = {} \<and> word_set '''' = {} \<and>
   too_similar (word_set '' '') '''' = Inr False"
proof -
  let ?data = "\<lparr>facts_by_topic =
        [''Animals'' \<mapsto> [\<lparr>fact = ''Sharks never sleep'', full_script = ''Did you know?'',
                            generated_at = ''2025-01-01'', model = ''gemini-2.5-flash''\<rparr>]],
      metadata = \<lparr>total_facts = 1, last_updated = None\<rparr>\<rparr>"
  have facts: "get_existing_facts ?data ''Animals'' = [''Sharks never sleep'']"
    by (simp add: get_existing_facts_def)
  have dup: "is_fact_duplicate ?data ''sharks NEVER sleep'' ''Animals'' = Inr True"
    by (simp add: is_fact_duplicate_def facts split_lower_examples too_similar_def
          truediv_def SIMILARITY_THRESHOLD_def Let_def card_insert_if)
  have empty: "word_set '' '' = {} \<and> word_set '''' = {}"
    by (simp add: split_lower_examples)
  show ?thesis
    using is_fact_duplicate_total [of ?data "''sharks NEVER sleep''" "''Animals''" "''''"]
      is_fact_duplicate_total [of ?data "'' ''" "''Animals''" "''''"]
      dup empty facts
    by simp
qed


end
